theory Spec2Isabelle
  imports Main
begin

section \<open>Python values and exceptions\<close>

text \<open>
  The services exchange JSON documents and Python dictionaries. A dictionary is an
  association list with distinct keys, looked up with \<open>map_of\<close>; Python's \<open>None\<close>
  is \<open>JNull\<close>. Strings are ASCII. No operation of the program inspects a number, so
  numbers are integers here.
\<close>

datatype json =
    JNull
  | JBool bool
  | JNum int
  | JStr string
  | JArr "json list"
  | JObj "(string \<times> json) list"

text \<open>
  Exceptions are values. Every constructor stands for a subclass of Python's
  \<open>Exception\<close> that the program can meet; the argument is what the exception carries.
  \<open>HTTPException status e\<close> is FastAPI's exception whose \<open>detail\<close> is \<open>str(e)\<close>;
  the exception \<open>e\<close> itself is kept in place of its rendering.
\<close>

datatype py_exception =
    AttributeError string
  | TypeError string
  | KeyError string
  | IndexError string
  | FileNotFoundError string
  | ValidationError string
  | HttpError string
  | TimeoutException string
  | TransportError string
  | HTTPStatusError nat
  | McpError string
  | RuntimeError string
  | HTTPException nat py_exception

text \<open>\<open>obj[key]\<close> with a string key.\<close>

fun py_getitem :: "json \<Rightarrow> string \<Rightarrow> py_exception + json" where
  "py_getitem (JObj kvs) k =
     (case map_of kvs k of None \<Rightarrow> Inl (KeyError k) | Some v \<Rightarrow> Inr v)"
| "py_getitem JNull k = Inl (TypeError ''NoneType object is not subscriptable'')"
| "py_getitem (JBool b) k = Inl (TypeError ''bool object is not subscriptable'')"
| "py_getitem (JNum n) k = Inl (TypeError ''int object is not subscriptable'')"
| "py_getitem (JStr s) k = Inl (TypeError ''string indices must be integers'')"
| "py_getitem (JArr xs) k = Inl (TypeError ''list indices must be integers or slices'')"

text \<open>\<open>obj[0]\<close>.\<close>

fun py_getitem0 :: "json \<Rightarrow> py_exception + json" where
  "py_getitem0 (JArr []) = Inl (IndexError ''list index out of range'')"
| "py_getitem0 (JArr (x # xs)) = Inr x"
| "py_getitem0 (JStr []) = Inl (IndexError ''string index out of range'')"
| "py_getitem0 (JStr (c # cs)) = Inr (JStr [c])"
| "py_getitem0 (JObj kvs) = Inl (KeyError ''0'')"
| "py_getitem0 JNull = Inl (TypeError ''NoneType object is not subscriptable'')"
| "py_getitem0 (JBool b) = Inl (TypeError ''bool object is not subscriptable'')"
| "py_getitem0 (JNum n) = Inl (TypeError ''int object is not subscriptable'')"

text \<open>\<open>obj.get(key, default)\<close>: only a dictionary has the method.\<close>

fun py_get :: "json \<Rightarrow> string \<Rightarrow> json \<Rightarrow> py_exception + json" where
  "py_get (JObj kvs) k d = (case map_of kvs k of None \<Rightarrow> Inr d | Some v \<Rightarrow> Inr v)"
| "py_get j k d = Inl (AttributeError ''get'')"

text \<open>
  The items a \<open>for\<close> loop draws from a value: the elements of a list, the keys of a
  dictionary, the characters of a string; anything else is not iterable.
\<close>

fun py_iter :: "json \<Rightarrow> py_exception + json list" where
  "py_iter (JArr xs) = Inr xs"
| "py_iter (JObj kvs) = Inr (map (\<lambda>kv. JStr (fst kv)) kvs)"
| "py_iter (JStr s) = Inr (map (\<lambda>c. JStr [c]) s)"
| "py_iter JNull = Inl (TypeError ''NoneType object is not iterable'')"
| "py_iter (JBool b) = Inl (TypeError ''bool object is not iterable'')"
| "py_iter (JNum n) = Inl (TypeError ''int object is not iterable'')"

text \<open>\<open>str.lower()\<close> and \<open>str.strip()\<close> on ASCII strings, \<open>sep.join(xs)\<close>.\<close>

definition lower_char :: "char \<Rightarrow> char" where
  "lower_char c =
     (case map_of (zip ''ABCDEFGHIJKLMNOPQRSTUVWXYZ'' ''abcdefghijklmnopqrstuvwxyz'') c of
        None \<Rightarrow> c
      | Some d \<Rightarrow> d)"

definition lower :: "string \<Rightarrow> string" where
  "lower s = map lower_char s"

definition isspace :: "char \<Rightarrow> bool" where
  "isspace c =
     (c \<in> set [CHR 0x09, CHR 0x0A, CHR 0x0B, CHR 0x0C, CHR 0x0D,
                CHR 0x1C, CHR 0x1D, CHR 0x1E, CHR 0x1F, CHR 0x20])"

definition strip :: "string \<Rightarrow> string" where
  "strip s = rev (dropWhile isspace (rev (dropWhile isspace s)))"

fun join :: "string \<Rightarrow> string list \<Rightarrow> string" where
  "join sep [] = []"
| "join sep [x] = x"
| "join sep (x # y # ys) = x @ sep @ join sep (y # ys)"

section \<open>The email tool (email_service.py)\<close>

text \<open>
  \<open>EmailService\<close> holds the contact directory read at construction and the handle of
  the mail API. Building the \<open>EmailMessage\<close>, encoding it and
  \<open>users().messages().send(...).execute()\<close> are library code: \<open>service\<close> maps the
  values handed to the library to what it returns or raises.
\<close>

record email_message =
  msg_content :: string
  msg_to :: string
  msg_subject :: string
  msg_cc :: "string option"
  msg_bcc :: "string option"

record EmailService =
  contacts :: "string \<rightharpoonup> string"
  service :: "email_message \<Rightarrow> py_exception + json"

definition get_contact_email :: "EmailService \<Rightarrow> string \<Rightarrow> py_exception + string" where
  "get_contact_email self input =
     (case contacts self (lower input) of
        None \<Rightarrow> Inl (KeyError (lower input))
      | Some a \<Rightarrow> Inr a)"

text \<open>The loop of \<open>get_list_emails\<close>: \<open>output.append(self.contacts[email])\<close>.\<close>

fun lookup_each :: "(string \<rightharpoonup> string) \<Rightarrow> string list \<Rightarrow> py_exception + string list" where
  "lookup_each cs [] = Inr []"
| "lookup_each cs (email # rest) =
     (case cs email of
        None \<Rightarrow> Inl (KeyError email)
      | Some a \<Rightarrow>
          (case lookup_each cs rest of Inl e \<Rightarrow> Inl e | Inr out \<Rightarrow> Inr (a # out)))"

text \<open>\<open>not input\<close> holds of \<open>None\<close> and of the empty list.\<close>

definition falsy :: "string list option \<Rightarrow> bool" where
  "falsy input = (case input of None \<Rightarrow> True | Some xs \<Rightarrow> xs = [])"

definition get_list_emails ::
  "EmailService \<Rightarrow> string list option \<Rightarrow> py_exception + string list option" where
  "get_list_emails self input =
     (if falsy input then Inr None
      else (case input of
              None \<Rightarrow> Inr None
            | Some xs \<Rightarrow>
                (case lookup_each (contacts self) xs of
                   Inl e \<Rightarrow> Inl e
                 | Inr out \<Rightarrow> Inr (Some out))))"

text \<open>
  The body of the \<open>try\<close> block of \<open>send_email\<close>, then the function with its
  \<open>except HttpError\<close> clause: only that exception becomes an error dictionary, every
  other one leaves the function.
\<close>

definition send_email_try ::
  "EmailService \<Rightarrow> string \<Rightarrow> string \<Rightarrow> string \<Rightarrow> string list option \<Rightarrow> string list option
     \<Rightarrow> py_exception + json" where
  "send_email_try self to subject body cc bcc =
     (case get_contact_email self to of
        Inl e \<Rightarrow> Inl e
      | Inr contact_email \<Rightarrow>
     (case get_list_emails self bcc of
        Inl e \<Rightarrow> Inl e
      | Inr bcc_emails \<Rightarrow>
     (case get_list_emails self cc of
        Inl e \<Rightarrow> Inl e
      | Inr cc_emails \<Rightarrow>
     (let message = \<lparr> msg_content = body, msg_to = contact_email,
                       msg_subject = strip subject,
                       msg_cc = (if falsy cc then None else map_option (join '', '') cc_emails),
                       msg_bcc = (if falsy bcc then None else map_option (join '', '') bcc_emails) \<rparr>
      in (case service self message of
            Inl e \<Rightarrow> Inl e
          | Inr sent_message \<Rightarrow>
         (case py_getitem sent_message ''id'' of
            Inl e \<Rightarrow> Inl e
          | Inr mid \<Rightarrow>
         (case py_getitem sent_message ''threadId'' of
            Inl e \<Rightarrow> Inl e
          | Inr tid \<Rightarrow>
              Inr (JObj [(''status'', JStr ''success''),
                         (''message_id'', mid), (''thread_id'', tid)]))))))))"

definition send_email ::
  "EmailService \<Rightarrow> string \<Rightarrow> string \<Rightarrow> string \<Rightarrow> string list option \<Rightarrow> string list option
     \<Rightarrow> py_exception + json" where
  "send_email self to subject body cc bcc =
     (case send_email_try self to subject body cc bcc of
        Inl (HttpError err) \<Rightarrow>
          Inr (JObj [(''status'', JStr ''error''), (''error'', JStr err)])
      | Inl e \<Rightarrow> Inl e
      | Inr r \<Rightarrow> Inr r)"

section \<open>The tool session (mcp_client.py)\<close>

text \<open>
  What the protocol library hands back: a tool entry of \<open>list_tools\<close>, and the result
  of \<open>call_tool\<close>, a sequence of content blocks with the \<open>isError\<close> flag. Only a
  \<open>TextContent\<close> block has the attribute \<open>text\<close>.
\<close>

record raw_tool =
  name :: string
  description :: "string option"
  inputSchema :: json

datatype content_block =
    TextContent string
  | ImageContent string string
  | EmbeddedResource json

record CallToolResult =
  content :: "content_block list"
  isError :: bool

fun text_attr :: "content_block \<Rightarrow> py_exception + string" where
  "text_attr (TextContent t) = Inr t"
| "text_attr (ImageContent d m) = Inl (AttributeError ''text'')"
| "text_attr (EmbeddedResource r) = Inl (AttributeError ''text'')"

text \<open>
  A \<open>ClientSession\<close> is known by what its two requests answer: the outcome of
  \<open>list_tools()\<close> and, for a tool name and arguments, the outcome of \<open>call_tool\<close>.
\<close>

record ClientSession =
  session_list_tools :: "py_exception + raw_tool list"
  session_call_tool :: "json \<Rightarrow> json \<Rightarrow> py_exception + CallToolResult"

record StdioServerParameters =
  command :: string
  args :: "string list"

text \<open>
  The asynchronous context managers that \<open>connect_to_server\<close> enters, and the two
  streams of the transport.
\<close>

datatype ctx = StdioClientCtx StdioServerParameters | ClientSessionCtx

datatype stream = ReadStream StdioServerParameters | WriteStream StdioServerParameters

text \<open>
  \<open>MCPClient\<close>. The exit stack lists the entered contexts, the latest first.
\<close>

record MCPClient =
  session :: "ClientSession option"
  exit_stack :: "ctx list"
  stdio :: "stream option"
  write_stream :: "stream option"

definition MCPClient_init :: MCPClient where
  "MCPClient_init = \<lparr> session = None, exit_stack = [], stdio = None, write_stream = None \<rparr>"

text \<open>
  The machine around the client: the subprocesses alive, and the record of every spawn
  and termination.
\<close>

datatype proc_event = Spawn StdioServerParameters | Terminate StdioServerParameters

record system =
  client :: MCPClient
  processes :: "StdioServerParameters list"
  history :: "proc_event list"

text \<open>
  What the platform and the protocol library answer during start-up and shutdown:
  \<open>os.path.abspath\<close>, \<open>os.path.exists\<close>, whether entering \<open>stdio_client\<close> (the
  spawn), entering \<open>ClientSession\<close> and \<open>initialize()\<close> raise, the session that
  results, and what leaving each context raises.
\<close>

record host =
  abspath :: "string \<Rightarrow> string"
  path_exists :: "string \<Rightarrow> bool"
  stdio_client_enter :: "StdioServerParameters \<Rightarrow> py_exception option"
  ClientSession_enter :: "py_exception option"
  initialize :: "py_exception option"
  the_session :: ClientSession
  ctx_exit :: "ctx \<Rightarrow> py_exception option"

definition enter_stdio :: "StdioServerParameters \<Rightarrow> system \<Rightarrow> system" where
  "enter_stdio p st =
     st \<lparr> client := (client st) \<lparr> exit_stack := StdioClientCtx p # exit_stack (client st),
                                    stdio := Some (ReadStream p),
                                    write_stream := Some (WriteStream p) \<rparr>,
          processes := p # processes st,
          history := history st @ [Spawn p] \<rparr>"

definition enter_session :: "ClientSession \<Rightarrow> system \<Rightarrow> system" where
  "enter_session s st =
     st \<lparr> client := (client st) \<lparr> exit_stack := ClientSessionCtx # exit_stack (client st),
                                    session := Some s \<rparr> \<rparr>"

definition connect_to_server :: "host \<Rightarrow> string \<Rightarrow> system \<Rightarrow> (py_exception + unit) \<times> system" where
  "connect_to_server h server_script_path st =
     (let server_path = abspath h server_script_path in
      if \<not> path_exists h server_path then (Inl (FileNotFoundError server_path), st)
      else
        (let server_params = \<lparr> command = ''python'', args = [server_path] \<rparr> in
         case stdio_client_enter h server_params of
           Some e \<Rightarrow> (Inl e, st)
         | None \<Rightarrow>
            (let st1 = enter_stdio server_params st in
             case ClientSession_enter h of
               Some e \<Rightarrow> (Inl e, st1)
             | None \<Rightarrow>
                (let st2 = enter_session (the_session h) st1 in
                 case initialize h of
                   Some e \<Rightarrow> (Inl e, st2)
                 | None \<Rightarrow> (Inr (), st2)))))"

text \<open>
  \<open>AsyncExitStack.aclose()\<close>: every context is popped and left, the latest first, also
  after one of them raised; the exception raised last is the one \<open>aclose\<close> raises.
  Leaving the transport context terminates its subprocess.
\<close>

fun leave :: "ctx \<Rightarrow> system \<Rightarrow> system" where
  "leave (StdioClientCtx p) st =
     st \<lparr> processes := remove1 p (processes st), history := history st @ [Terminate p] \<rparr>"
| "leave ClientSessionCtx st = st"

fun unwind :: "host \<Rightarrow> ctx list \<Rightarrow> py_exception option \<Rightarrow> system \<Rightarrow> py_exception option \<times> system" where
  "unwind h [] pending st = (pending, st)"
| "unwind h (c # cs) pending st =
     unwind h cs (case ctx_exit h c of Some e \<Rightarrow> Some e | None \<Rightarrow> pending) (leave c st)"

definition aclose :: "host \<Rightarrow> system \<Rightarrow> py_exception option \<times> system" where
  "aclose h st =
     unwind h (exit_stack (client st)) None (st \<lparr> client := (client st) \<lparr> exit_stack := [] \<rparr> \<rparr>)"

text \<open>\<open>cleanup\<close> prints the exception of \<open>aclose\<close> and returns.\<close>

definition cleanup :: "host \<Rightarrow> system \<Rightarrow> (py_exception + unit) \<times> system" where
  "cleanup h st = (case aclose h st of (Some e, st') \<Rightarrow> (Inr (), st') | (None, st') \<Rightarrow> (Inr (), st'))"

fun cleanup_times :: "nat \<Rightarrow> host \<Rightarrow> system \<Rightarrow> (py_exception + unit) list \<times> system" where
  "cleanup_times 0 h st = ([], st)"
| "cleanup_times (Suc n) h st =
     (case cleanup h st of (r, st') \<Rightarrow>
        (case cleanup_times n h st' of (rs, st'') \<Rightarrow> (r # rs, st'')))"

text \<open>
  \<open>async_main\<close>: the exception of \<open>connect_to_server\<close> is printed, and \<open>cleanup\<close> runs
  in the \<open>finally\<close> clause.
\<close>

definition async_main :: "host \<Rightarrow> system \<Rightarrow> (py_exception + unit) \<times> system" where
  "async_main h st =
     (case connect_to_server h ''mcp_service/mcp_server.py'' st of
        (r, st1) \<Rightarrow> (case cleanup h st1 of
                       (Inl e, st2) \<Rightarrow> (Inl e, st2)
                     | (Inr u, st2) \<Rightarrow> (Inr (), st2)))"

text \<open>
  \<open>get_mcp_tools\<close>. Every function that talks to the session or to the completion
  service returns its result together with the requests it made, in order. What the
  program prints is not part of the model.
\<close>

definition tool_dict :: "raw_tool \<Rightarrow> json" where
  "tool_dict tool =
     JObj [(''name'', JStr (name tool)),
           (''description'', (case description tool of None \<Rightarrow> JNull | Some d \<Rightarrow> JStr d)),
           (''input_schema'', inputSchema tool)]"

text \<open>
  A prompt is kept as the template it is built from and the values put into it: the
  planning prompt with the user's message, the prompt for a direct answer, and the
  prompt with \<open>str(tool_result)\<close>.
\<close>

datatype prompt = PlanPrompt string | DirectPrompt string | ToolPrompt string json

record request =
  url :: string
  x_api_key :: "string option"
  anthropic_version :: string
  timeout :: nat
  model :: "string option"
  max_tokens :: nat
  messages :: "(string \<times> prompt) list"
  tools :: "json list option"
  tool_choice :: "json option"

datatype event = ListTools | Post request | CallTool json json

type_synonym 'a io = "(py_exception + 'a) \<times> event list"

definition get_mcp_tools :: "MCPClient \<Rightarrow> json list io" where
  "get_mcp_tools self =
     (case session self of
        None \<Rightarrow> (Inl (AttributeError ''list_tools''), [])
      | Some s \<Rightarrow>
          (case session_list_tools s of
             Inl e \<Rightarrow> (Inl e, [ListTools])
           | Inr ts \<Rightarrow> (Inr (map tool_dict ts), [ListTools])))"

section \<open>The service (mcp_api.py)\<close>


text \<open>
  \<open>lifespan\<close>: the generator connects, yields while the application serves, and runs
  \<open>cleanup\<close> in its \<open>finally\<close> clause, printing what \<open>cleanup\<close> raises. \<open>fault\<close> is the
  exception thrown into the generator at the \<open>yield\<close>, if any. The outcome tells the
  exception that leaves the generator, whether the \<open>yield\<close> was reached, the state at
  the \<open>yield\<close> and the state at the end.
\<close>

record lifespan_outcome =
  raised :: "py_exception option"
  yielded :: bool
  final :: system

definition lifespan :: "host \<Rightarrow> py_exception option \<Rightarrow> system \<Rightarrow> lifespan_outcome" where
  "lifespan h fault st =
     (case connect_to_server h ''mcp_server.py'' st of
        (Inl e, st1) \<Rightarrow>
          \<lparr> raised = Some e, yielded = False, final = snd (cleanup h st1) \<rparr>
      | (Inr u, st1) \<Rightarrow>
          \<lparr> raised = fault, yielded = True, final = snd (cleanup h st1) \<rparr>)"

text \<open>
  The completion service: the two settings read from the environment, and \<open>post\<close>,
  which answers a request with the parsed JSON body, or with the exception of
  \<open>client.post\<close>, \<open>raise_for_status()\<close> or \<open>response.json()\<close>.
\<close>

record completion_service =
  ANTHROPIC_API_KEY :: "string option"
  CLAUDE_MODEL :: "string option"
  post :: "request \<Rightarrow> py_exception + json"

definition plan_request :: "completion_service \<Rightarrow> string \<Rightarrow> json list \<Rightarrow> request" where
  "plan_request env user_message ts =
     \<lparr> url = ''https://api.anthropic.com/v1/messages'',
       x_api_key = ANTHROPIC_API_KEY env,
       anthropic_version = ''2023-06-01'',
       timeout = 35,
       model = CLAUDE_MODEL env,
       max_tokens = 1000,
       messages = [(''user'', PlanPrompt user_message)],
       tools = Some ts,
       tool_choice = Some (JObj [(''type'', JStr ''any'')]) \<rparr>"

definition respond_request :: "completion_service \<Rightarrow> string \<Rightarrow> json \<Rightarrow> request" where
  "respond_request env user_message tool_result =
     \<lparr> url = ''https://api.anthropic.com/v1/messages'',
       x_api_key = ANTHROPIC_API_KEY env,
       anthropic_version = ''2023-06-01'',
       timeout = 35,
       model = CLAUDE_MODEL env,
       max_tokens = 1000,
       messages = [(''user'', (if tool_result = JNull then DirectPrompt user_message
                                else ToolPrompt user_message tool_result))],
       tools = None,
       tool_choice = None \<rparr>"

text \<open>The loop of \<open>generate_plan\<close>: the first item whose type is \<open>tool_use\<close>, else \<open>None\<close>.\<close>

fun find_tool_use :: "json list \<Rightarrow> py_exception + json" where
  "find_tool_use [] = Inr JNull"
| "find_tool_use (item # rest) =
     (case py_get item ''type'' JNull of
        Inl e \<Rightarrow> Inl e
      | Inr t \<Rightarrow> if t = JStr ''tool_use'' then Inr item else find_tool_use rest)"

text \<open>
  The \<open>try\<close> block of \<open>generate_plan\<close>, then the function: its \<open>except Exception\<close>
  clause prints the exception and falls through, so the function returns \<open>None\<close>.
\<close>

definition generate_plan_try :: "completion_service \<Rightarrow> MCPClient \<Rightarrow> string \<Rightarrow> json io" where
  "generate_plan_try env mcp_client user_message =
     (case get_mcp_tools mcp_client of
        (Inl e, tr) \<Rightarrow> (Inl e, tr)
      | (Inr ts, tr) \<Rightarrow>
          (let req = plan_request env user_message ts in
           (case post env req of
              Inl e \<Rightarrow> (Inl e, tr @ [Post req])
            | Inr result \<Rightarrow>
                (case py_get result ''content'' (JArr []) of
                   Inl e \<Rightarrow> (Inl e, tr @ [Post req])
                 | Inr c \<Rightarrow>
                     (case py_iter c of
                        Inl e \<Rightarrow> (Inl e, tr @ [Post req])
                      | Inr items \<Rightarrow> (find_tool_use items, tr @ [Post req]))))))"

definition generate_plan :: "completion_service \<Rightarrow> MCPClient \<Rightarrow> string \<Rightarrow> json io" where
  "generate_plan env mcp_client user_message =
     (case generate_plan_try env mcp_client user_message of
        (Inl e, tr) \<Rightarrow> (Inr JNull, tr)
      | (Inr plan, tr) \<Rightarrow> (Inr plan, tr))"

text \<open>
  \<open>generate_user_response\<close>: \<open>result["content"][0]["text"]\<close>, and \<open>None\<close> after any
  exception.
\<close>

definition generate_user_response_try :: "completion_service \<Rightarrow> string \<Rightarrow> json \<Rightarrow> json io" where
  "generate_user_response_try env user_message tool_result =
     (let req = respond_request env user_message tool_result in
      (case post env req of
         Inl e \<Rightarrow> (Inl e, [Post req])
       | Inr result \<Rightarrow>
           (case py_getitem result ''content'' of
              Inl e \<Rightarrow> (Inl e, [Post req])
            | Inr c \<Rightarrow>
                (case py_getitem0 c of
                   Inl e \<Rightarrow> (Inl e, [Post req])
                 | Inr b \<Rightarrow> (py_getitem b ''text'', [Post req])))))"

definition generate_user_response :: "completion_service \<Rightarrow> string \<Rightarrow> json \<Rightarrow> json io" where
  "generate_user_response env user_message tool_result =
     (case generate_user_response_try env user_message tool_result of
        (Inl e, tr) \<Rightarrow> (Inr JNull, tr)
      | (Inr t, tr) \<Rightarrow> (Inr t, tr))"

text \<open>\<open>ChatResponse(response=...)\<close>: the field is a string, anything else is refused.\<close>

record ChatResponse =
  response :: string

fun make_ChatResponse :: "json \<Rightarrow> py_exception + ChatResponse" where
  "make_ChatResponse (JStr s) = Inr \<lparr> response = s \<rparr>"
| "make_ChatResponse j = Inl (ValidationError ''response'')"

text \<open>\<open>result.content[0].text\<close>.\<close>

definition first_content_text :: "CallToolResult \<Rightarrow> py_exception + string" where
  "first_content_text result =
     (case content result of
        [] \<Rightarrow> Inl (IndexError ''list index out of range'')
      | b # bs \<Rightarrow> text_attr b)"

text \<open>
  The \<open>try\<close> block of \<open>chat\<close>, in two parts (the answer without a tool, the tool
  call), then the endpoint: every exception becomes \<open>HTTPException\<close> with status 500.
\<close>

definition respond_and_return :: "completion_service \<Rightarrow> string \<Rightarrow> json \<Rightarrow> ChatResponse io" where
  "respond_and_return env message tool_result =
     (case generate_user_response env message tool_result of
        (Inl e, tr) \<Rightarrow> (Inl e, tr)
      | (Inr user_response, tr) \<Rightarrow> (make_ChatResponse user_response, tr))"

definition execute_tool :: "completion_service \<Rightarrow> MCPClient \<Rightarrow> string \<Rightarrow> json \<Rightarrow> ChatResponse io" where
  "execute_tool env mcp_client message plan =
     (case session mcp_client of
        None \<Rightarrow> (Inl (AttributeError ''call_tool''), [])
      | Some s \<Rightarrow>
     (case py_getitem plan ''name'' of
        Inl e \<Rightarrow> (Inl e, [])
      | Inr nm \<Rightarrow>
     (case py_getitem plan ''input'' of
        Inl e \<Rightarrow> (Inl e, [])
      | Inr arguments \<Rightarrow>
     (case session_call_tool s nm arguments of
        Inl e \<Rightarrow> (Inl e, [CallTool nm arguments])
      | Inr result \<Rightarrow>
     (case first_content_text result of
        Inl e \<Rightarrow> (Inl e, [CallTool nm arguments])
      | Inr t \<Rightarrow>
          (case respond_and_return env message (JObj [(''result'', JStr t)]) of
             (r, tr) \<Rightarrow> (r, CallTool nm arguments # tr)))))))"

definition chat_try :: "completion_service \<Rightarrow> MCPClient \<Rightarrow> string \<Rightarrow> ChatResponse io" where
  "chat_try env mcp_client message =
     (case generate_plan env mcp_client message of
        (Inl e, tr) \<Rightarrow> (Inl e, tr)
      | (Inr plan, tr) \<Rightarrow>
          (case py_getitem plan ''name'' of
             Inl e \<Rightarrow> (Inl e, tr)
           | Inr nm \<Rightarrow>
               if nm = JStr ''none''
               then (case respond_and_return env message JNull of (r, tr') \<Rightarrow> (r, tr @ tr'))
               else (case execute_tool env mcp_client message plan of
                       (r, tr') \<Rightarrow> (r, tr @ tr'))))"

definition chat :: "completion_service \<Rightarrow> MCPClient \<Rightarrow> string \<Rightarrow> ChatResponse io" where
  "chat env mcp_client message =
     (case chat_try env mcp_client message of
        (Inl e, tr) \<Rightarrow> (Inl (HTTPException 500 e), tr)
      | (Inr r, tr) \<Rightarrow> (Inr r, tr))"

text \<open>The endpoint \<open>GET /tools\<close>.\<close>

definition list_tools :: "MCPClient \<Rightarrow> json io" where
  "list_tools mcp_client =
     (case get_mcp_tools mcp_client of
        (Inl e, tr) \<Rightarrow> (Inl (HTTPException 500 e), tr)
      | (Inr ts, tr) \<Rightarrow> (Inr (JObj [(''tools'', JArr ts)]), tr))"

text \<open>The requests of a run, by kind.\<close>

fun posts :: "event list \<Rightarrow> request list" where
  "posts [] = []"
| "posts (Post r # es) = r # posts es"
| "posts (e # es) = posts es"

text \<open>
  The calls of \<open>generate_user_response\<close> in a run: it alone posts a request without a
  tool list.
\<close>

definition respond_posts :: "event list \<Rightarrow> request list" where
  "respond_posts tr = filter (\<lambda>r. tools r = None) (posts tr)"

text \<open>The tool calls of a run, each with its name and arguments.\<close>

fun tool_calls :: "event list \<Rightarrow> (json \<times> json) list" where
  "tool_calls [] = []"
| "tool_calls (CallTool n a # es) = (n, a) # tool_calls es"
| "tool_calls (e # es) = tool_calls es"

section \<open>Example inputs\<close>

text \<open>Concrete directories, sessions, hosts and completion services, on which the
  properties below are evaluated.\<close>

definition ex_directory :: EmailService where
  "ex_directory =
     \<lparr> contacts = [''Alice'' \<mapsto> ''alice@example.com''],
       service = (\<lambda>m. Inr (JObj [(''id'', JStr ''m1''), (''threadId'', JStr ''t1'')])) \<rparr>"

definition ex_directory_lower :: EmailService where
  "ex_directory_lower =
     \<lparr> contacts = [''alice'' \<mapsto> ''alice@example.com''],
       service = (\<lambda>m. Inr (JObj [(''id'', JStr ''m1''), (''threadId'', JStr ''t1'')])) \<rparr>"

definition ex_tools :: "raw_tool list" where
  "ex_tools =
     [\<lparr> name = ''send_email'', description = Some ''Send an email'', inputSchema = JObj [] \<rparr>,
      \<lparr> name = ''read_email'', description = None, inputSchema = JObj [] \<rparr>]"

definition ex_session :: ClientSession where
  "ex_session =
     \<lparr> session_list_tools = Inr ex_tools,
       session_call_tool = (\<lambda>n a. Inr \<lparr> content = [TextContent ''sent''], isError = False \<rparr>) \<rparr>"

definition ex_client :: MCPClient where
  "ex_client = MCPClient_init \<lparr> session := Some ex_session \<rparr>"

definition ex_host :: host where
  "ex_host =
     \<lparr> abspath = (\<lambda>p. ''/srv/app/'' @ p),
       path_exists = (\<lambda>p. p = ''/srv/app/mcp_server.py''),
       stdio_client_enter = (\<lambda>p. None),
       ClientSession_enter = None,
       initialize = Some (McpError ''handshake''),
       the_session = ex_session,
       ctx_exit = (\<lambda>c. Some (RuntimeError ''cancel scope'')) \<rparr>"

definition ex_host_no_script :: host where
  "ex_host_no_script = ex_host \<lparr> path_exists := (\<lambda>p. False) \<rparr>"

definition ex_boot :: system where
  "ex_boot = \<lparr> client = MCPClient_init, processes = [], history = [] \<rparr>"

definition ex_server_params :: StdioServerParameters where
  "ex_server_params = \<lparr> command = ''python'', args = [''/srv/app/mcp_server.py''] \<rparr>"

definition text_reply :: "string \<Rightarrow> json" where
  "text_reply t = JObj [(''content'', JArr [JObj [(''type'', JStr ''text''), (''text'', JStr t)]])]"

definition tool_use_reply :: "string \<Rightarrow> json \<Rightarrow> json" where
  "tool_use_reply n a =
     JObj [(''content'',
            JArr [JObj [(''type'', JStr ''tool_use''), (''name'', JStr n), (''input'', a)]])]"

definition ex_env_text :: completion_service where
  "ex_env_text =
     \<lparr> ANTHROPIC_API_KEY = Some ''key'', CLAUDE_MODEL = Some ''model'',
       post = (\<lambda>r. Inr (text_reply ''Hello'')) \<rparr>"

definition ex_env_timeout :: completion_service where
  "ex_env_timeout =
     \<lparr> ANTHROPIC_API_KEY = Some ''key'', CLAUDE_MODEL = Some ''model'',
       post = (\<lambda>r. Inl (TimeoutException ''timed out'')) \<rparr>"

definition ex_env_none :: completion_service where
  "ex_env_none =
     \<lparr> ANTHROPIC_API_KEY = Some ''key'', CLAUDE_MODEL = Some ''model'',
       post = (\<lambda>r. if tools r = None then Inr (text_reply ''Sunny'')
                    else Inr (tool_use_reply ''none'' (JObj []))) \<rparr>"

definition ex_arguments :: json where
  "ex_arguments =
     JObj [(''to'', JStr ''bob''), (''subject'', JStr ''Report''), (''body'', JStr ''Ready'')]"

definition ex_env_tool :: completion_service where
  "ex_env_tool =
     \<lparr> ANTHROPIC_API_KEY = Some ''key'', CLAUDE_MODEL = Some ''model'',
       post = (\<lambda>r. if tools r = None then Inr (text_reply ''Done'')
                    else Inr (tool_use_reply ''send_email'' ex_arguments)) \<rparr>"

definition ex_client_image :: MCPClient where
  "ex_client_image =
     MCPClient_init \<lparr> session := Some
       \<lparr> session_list_tools = Inr ex_tools,
         session_call_tool = (\<lambda>n a. Inr \<lparr> content = [ImageContent ''data'' ''image/png'',
                                                       TextContent ''ok''],
                                            isError = False \<rparr>) \<rparr> \<rparr>"

definition ex_client_empty :: MCPClient where
  "ex_client_empty =
     MCPClient_init \<lparr> session := Some
       \<lparr> session_list_tools = Inr ex_tools,
         session_call_tool = (\<lambda>n a. Inr \<lparr> content = [], isError = False \<rparr>) \<rparr> \<rparr>"

text \<open>
  A session that reports the failure of a tool inside its result, and one whose
  \<open>call_tool\<close> raises.
\<close>

definition ex_session_failed :: ClientSession where
  "ex_session_failed =
     \<lparr> session_list_tools = Inr ex_tools,
       session_call_tool =
         (\<lambda>n a. Inr \<lparr> content = [TextContent ''Error executing tool send_email: bob''],
                        isError = True \<rparr>) \<rparr>"

definition ex_client_failed :: MCPClient where
  "ex_client_failed = MCPClient_init \<lparr> session := Some ex_session_failed \<rparr>"

definition ex_session_raising :: ClientSession where
  "ex_session_raising =
     \<lparr> session_list_tools = Inr ex_tools,
       session_call_tool = (\<lambda>n a. Inl (McpError ''bob'')) \<rparr>"

definition ex_client_raising :: MCPClient where
  "ex_client_raising = MCPClient_init \<lparr> session := Some ex_session_raising \<rparr>"

section \<open>Properties\<close>

subsection \<open>Tool listing\<close>

text \<open>
  C5. When the session answers \<open>list_tools\<close> with a list of tool entries,
  \<open>get_mcp_tools\<close> returns one dictionary per entry, in the order received: the
  dictionary at each position holds the name, the description and the input schema of
  the entry at that position. The endpoint \<open>GET /tools\<close> returns the same list.
\<close>

theorem get_mcp_tools_preserves_order:
  assumes "session self = Some s" and "session_list_tools s = Inr ts"
  shows "\<exists>ds. fst (get_mcp_tools self) = Inr ds \<and> length ds = length ts
           \<and> (\<forall>i<length ts.
                 py_getitem (ds ! i) ''name'' = Inr (JStr (name (ts ! i)))
               \<and> py_getitem (ds ! i) ''description''
                   = Inr (case description (ts ! i) of None \<Rightarrow> JNull | Some d \<Rightarrow> JStr d)
               \<and> py_getitem (ds ! i) ''input_schema'' = Inr (inputSchema (ts ! i)))
           \<and> fst (list_tools self) = Inr (JObj [(''tools'', JArr ds)])"
proof -
  have "fst (get_mcp_tools self) = Inr (map tool_dict ts)"
    using assms by (simp add: get_mcp_tools_def)
  moreover have "fst (list_tools self) = Inr (JObj [(''tools'', JArr (map tool_dict ts))])"
    using assms by (simp add: list_tools_def get_mcp_tools_def)
  moreover have "\<forall>i<length ts.
                 py_getitem (map tool_dict ts ! i) ''name'' = Inr (JStr (name (ts ! i)))
               \<and> py_getitem (map tool_dict ts ! i) ''description''
                   = Inr (case description (ts ! i) of None \<Rightarrow> JNull | Some d \<Rightarrow> JStr d)
               \<and> py_getitem (map tool_dict ts ! i) ''input_schema'' = Inr (inputSchema (ts ! i))"
    by (simp add: tool_dict_def)
  ultimately show ?thesis by auto
qed

theorem get_mcp_tools_preserves_order_witness:
  "\<exists>ds. fst (get_mcp_tools ex_client) = Inr ds \<and> length ds = 2
     \<and> py_getitem (ds ! 0) ''name'' = Inr (JStr ''send_email'')
     \<and> py_getitem (ds ! 1) ''name'' = Inr (JStr ''read_email'')
     \<and> py_getitem (ds ! 1) ''description'' = Inr JNull"
proof -
  have h1: "session ex_client = Some ex_session"
    by (simp add: ex_client_def MCPClient_init_def)
  have h2: "session_list_tools ex_session = Inr ex_tools"
    by (simp add: ex_session_def)
  from get_mcp_tools_preserves_order [OF h1 h2] obtain ds where
    ds: "fst (get_mcp_tools ex_client) = Inr ds" "length ds = length ex_tools"
    and each: "\<forall>i<length ex_tools.
                 py_getitem (ds ! i) ''name'' = Inr (JStr (name (ex_tools ! i)))
               \<and> py_getitem (ds ! i) ''description''
                   = Inr (case description (ex_tools ! i) of None \<Rightarrow> JNull | Some d \<Rightarrow> JStr d)
               \<and> py_getitem (ds ! i) ''input_schema'' = Inr (inputSchema (ex_tools ! i))"
    by blast
  have len: "length ex_tools = 2" by (simp add: ex_tools_def)
  from each len have e0: "py_getitem (ds ! 0) ''name'' = Inr (JStr (name (ex_tools ! 0)))"
    by simp
  from each len have e1: "py_getitem (ds ! 1) ''name'' = Inr (JStr (name (ex_tools ! 1)))
      \<and> py_getitem (ds ! 1) ''description''
           = Inr (case description (ex_tools ! 1) of None \<Rightarrow> JNull | Some d \<Rightarrow> JStr d)"
    by simp
  from ds len e0 e1 show ?thesis by (auto simp: ex_tools_def)
qed

subsection \<open>Start-up and shutdown\<close>

lemma leave_client: "client (leave c st) = client st"
  by (cases c) simp_all

lemma unwind_client: "client (snd (unwind h cs pending st)) = client st"
  by (induction cs arbitrary: pending st) (simp_all add: leave_client)

lemma aclose_exit_stack: "exit_stack (client (snd (aclose h st))) = []"
  by (simp add: aclose_def unwind_client)

lemma aclose_closed: "exit_stack (client st) = [] \<Longrightarrow> aclose h st = (None, st)"
  by (simp add: aclose_def)

lemma cleanup_returns: "fst (cleanup h st) = Inr ()"
  by (simp add: cleanup_def split: prod.splits option.splits)

lemma cleanup_exit_stack: "exit_stack (client (snd (cleanup h st))) = []"
proof -
  have "snd (cleanup h st) = snd (aclose h st)"
    by (simp add: cleanup_def split: prod.splits option.splits)
  then show ?thesis by (simp add: aclose_exit_stack)
qed

lemma cleanup_closed: "exit_stack (client st) = [] \<Longrightarrow> cleanup h st = (Inr (), st)"
  by (simp add: cleanup_def aclose_closed)

lemma cleanup_times_closed:
  "exit_stack (client st) = [] \<Longrightarrow> cleanup_times n h st = (replicate n (Inr ()), st)"
  by (induction n) (simp_all add: cleanup_closed)

lemma ex_connect:
  "connect_to_server ex_host ''mcp_server.py'' ex_boot =
     (Inl (McpError ''handshake''),
      \<lparr> client = \<lparr> session = Some ex_session,
                   exit_stack = [ClientSessionCtx, StdioClientCtx ex_server_params],
                   stdio = Some (ReadStream ex_server_params),
                   write_stream = Some (WriteStream ex_server_params) \<rparr>,
        processes = [ex_server_params],
        history = [Spawn ex_server_params] \<rparr>)"
  by (simp add: connect_to_server_def ex_host_def ex_boot_def MCPClient_init_def
      enter_stdio_def enter_session_def ex_server_params_def Let_def)

lemma connect_cases:
  "exit_stack (client st) = [] \<Longrightarrow>
   (let st' = snd (connect_to_server h p st);
        sp = \<lparr> command = ''python'', args = [abspath h p] \<rparr>
    in (st' = st)
     \<or> (exit_stack (client st') = [StdioClientCtx sp]
          \<and> processes st' = sp # processes st \<and> history st' = history st @ [Spawn sp])
     \<or> (exit_stack (client st') = [ClientSessionCtx, StdioClientCtx sp]
          \<and> processes st' = sp # processes st \<and> history st' = history st @ [Spawn sp]))"
  by (simp add: connect_to_server_def Let_def enter_stdio_def enter_session_def
      split: option.splits)

lemma cleanup_snd: "snd (cleanup h st) = snd (aclose h st)"
  by (simp add: cleanup_def split: prod.splits option.splits)

lemma unwind_processes_stdio:
  "processes (snd (unwind h [StdioClientCtx sp] pending st)) = remove1 sp (processes st)"
  by simp

lemma unwind_processes_both:
  "processes (snd (unwind h [ClientSessionCtx, StdioClientCtx sp] pending st))
     = remove1 sp (processes st)"
  by simp

lemma cleanup_after_connect:
  assumes "exit_stack (client st) = []"
  shows "processes (snd (cleanup h (snd (connect_to_server h p st)))) = processes st"
proof -
  let ?st' = "snd (connect_to_server h p st)"
  let ?sp = "\<lparr> command = ''python'', args = [abspath h p] \<rparr>"
  from connect_cases [OF assms, of h p]
  consider (a) "?st' = st"
    | (b) "exit_stack (client ?st') = [StdioClientCtx ?sp]" "processes ?st' = ?sp # processes st"
    | (c) "exit_stack (client ?st') = [ClientSessionCtx, StdioClientCtx ?sp]"
          "processes ?st' = ?sp # processes st"
    by (auto simp: Let_def)
  then show ?thesis
  proof cases
    case a
    then show ?thesis using assms by (simp add: cleanup_closed)
  next
    case b
    then show ?thesis by (simp add: cleanup_snd aclose_def)
  next
    case c
    then show ?thesis by (simp add: cleanup_snd aclose_def)
  qed
qed

lemma lifespan_final:
  "final (lifespan h fault st) = snd (cleanup h (snd (connect_to_server h ''mcp_server.py'' st)))"
  by (simp add: lifespan_def split: prod.splits sum.splits)

lemma async_main_final:
  "snd (async_main h st)
     = snd (cleanup h (snd (connect_to_server h ''mcp_service/mcp_server.py'' st)))"
  by (simp add: async_main_def split: prod.splits sum.splits)

lemma async_main_returns: "fst (async_main h st) = Inr ()"
proof -
  obtain r st1 where c: "connect_to_server h ''mcp_service/mcp_server.py'' st = (r, st1)"
    by (cases "connect_to_server h ''mcp_service/mcp_server.py'' st")
  have "fst (cleanup h st1) = Inr ()" by (rule cleanup_returns)
  then show ?thesis
    by (cases "cleanup h st1") (simp add: async_main_def c split: sum.splits)
qed

text \<open>
  C6. \<open>cleanup\<close> never raises, and it leaves the exit stack empty, whatever contexts
  were entered before (none, the transport alone, or the transport and the session,
  with \<open>initialize\<close> done or failed). On the state it leaves, every further
  \<open>cleanup\<close> returns normally and changes nothing: not the client, not the
  subprocesses, not the record of spawns and terminations. Exceptions are those of
  class \<open>Exception\<close>, the ones \<open>cleanup\<close> catches.
\<close>

theorem cleanup_idempotent:
  "fst (cleanup h st) = Inr ()
   \<and> exit_stack (client (snd (cleanup h st))) = []
   \<and> cleanup h (snd (cleanup h st)) = (Inr (), snd (cleanup h st))
   \<and> cleanup_times n h (snd (cleanup h st)) = (replicate n (Inr ()), snd (cleanup h st))"
  using cleanup_returns cleanup_exit_stack cleanup_closed cleanup_times_closed by blast

theorem cleanup_idempotent_witness:
  "fst (cleanup ex_host (snd (connect_to_server ex_host ''mcp_server.py'' ex_boot))) = Inr ()
   \<and> history (snd (cleanup ex_host (snd (connect_to_server ex_host ''mcp_server.py'' ex_boot))))
       = [Spawn ex_server_params, Terminate ex_server_params]
   \<and> cleanup_times 2 ex_host
        (snd (cleanup ex_host (snd (connect_to_server ex_host ''mcp_server.py'' ex_boot))))
       = ([Inr (), Inr ()],
          snd (cleanup ex_host (snd (connect_to_server ex_host ''mcp_server.py'' ex_boot))))"
proof -
  have hist: "history (snd (cleanup ex_host (snd (connect_to_server ex_host ''mcp_server.py'' ex_boot))))
       = [Spawn ex_server_params, Terminate ex_server_params]"
    by (simp add: ex_connect cleanup_snd aclose_def)
  have two: "replicate 2 (Inr () :: py_exception + unit) = [Inr (), Inr ()]"
    by (simp add: numeral_2_eq_2)
  from cleanup_idempotent [of ex_host "snd (connect_to_server ex_host ''mcp_server.py'' ex_boot)" 2]
    hist two
  show ?thesis by simp
qed

text \<open>
  C7. \<open>lifespan\<close> and \<open>async_main\<close> run \<open>cleanup\<close> on the state that
  \<open>connect_to_server\<close> leaves, on every path: when the connection fails, when the
  service shuts down normally (\<open>fault = None\<close>) and when an exception is thrown into
  the generator while it serves. Started with no context entered, they end with the
  exit stack empty and with the subprocesses that were alive before: the server they
  spawned is terminated.
\<close>

theorem cleanup_on_every_exit_path:
  assumes "exit_stack (client st) = []"
  shows "final (lifespan h fault st)
           = snd (cleanup h (snd (connect_to_server h ''mcp_server.py'' st)))
       \<and> exit_stack (client (final (lifespan h fault st))) = []
       \<and> processes (final (lifespan h fault st)) = processes st
       \<and> snd (async_main h st)
           = snd (cleanup h (snd (connect_to_server h ''mcp_service/mcp_server.py'' st)))
       \<and> exit_stack (client (snd (async_main h st))) = []
       \<and> processes (snd (async_main h st)) = processes st"
  using assms
  by (simp add: lifespan_final async_main_final cleanup_exit_stack cleanup_after_connect)

theorem cleanup_on_every_exit_path_witness:
  "processes (snd (connect_to_server ex_host ''mcp_server.py'' ex_boot)) = [ex_server_params]
   \<and> raised (lifespan ex_host (Some (RuntimeError ''fault'')) ex_boot)
       = Some (McpError ''handshake'')
   \<and> exit_stack (client (final (lifespan ex_host (Some (RuntimeError ''fault'')) ex_boot))) = []
   \<and> processes (final (lifespan ex_host (Some (RuntimeError ''fault'')) ex_boot)) = []"
proof -
  have h: "exit_stack (client ex_boot) = []"
    by (simp add: ex_boot_def MCPClient_init_def)
  have r: "raised (lifespan ex_host (Some (RuntimeError ''fault'')) ex_boot)
       = Some (McpError ''handshake'')"
    by (simp add: lifespan_def ex_connect)
  have p: "processes ex_boot = []" by (simp add: ex_boot_def)
  have c: "processes (snd (connect_to_server ex_host ''mcp_server.py'' ex_boot)) = [ex_server_params]"
    by (simp add: ex_connect)
  note T = cleanup_on_every_exit_path [OF h, of ex_host "Some (RuntimeError ''fault'')"]
  from T have A: "exit_stack (client (final (lifespan ex_host (Some (RuntimeError ''fault'')) ex_boot))) = []"
    by blast
  from T have "processes (final (lifespan ex_host (Some (RuntimeError ''fault'')) ex_boot))
                 = processes ex_boot"
    by blast
  with p have B: "processes (final (lifespan ex_host (Some (RuntimeError ''fault'')) ex_boot)) = []"
    by simp
  from c r A B show ?thesis by blast
qed

text \<open>
  C8. \<open>connect_to_server\<close> resolves the script path with \<open>abspath\<close> first. When the
  resolved path does not exist it raises \<open>FileNotFoundError\<close> (the failure to launch
  the process) and leaves the state as it was: no context entered, no subprocess
  spawned. When it exists, the only process it can spawn is \<open>python\<close> with the
  resolved path as its argument. In \<open>lifespan\<close>, with the script missing, the \<open>yield\<close>
  is not reached, so the service accepts no request, the exception leaves the
  generator, and the final state is the initial one.
\<close>

theorem connect_resolves_and_checks_path:
  "(if path_exists h (abspath h p)
    then history (snd (connect_to_server h p st)) = history st
       \<or> history (snd (connect_to_server h p st))
           = history st @ [Spawn \<lparr> command = ''python'', args = [abspath h p] \<rparr>]
    else connect_to_server h p st = (Inl (FileNotFoundError (abspath h p)), st))
   \<and> (\<not> path_exists h (abspath h ''mcp_server.py'') \<longrightarrow> exit_stack (client st) = [] \<longrightarrow>
        lifespan h fault st
          = \<lparr> raised = Some (FileNotFoundError (abspath h ''mcp_server.py'')),
              yielded = False, final = st \<rparr>)"
  by (simp add: connect_to_server_def Let_def enter_stdio_def enter_session_def lifespan_def
      cleanup_closed split: option.splits)

theorem connect_resolves_and_checks_path_witness:
  "connect_to_server ex_host_no_script ''mcp_server.py'' ex_boot
     = (Inl (FileNotFoundError ''/srv/app/mcp_server.py''), ex_boot)
   \<and> lifespan ex_host_no_script None ex_boot
     = \<lparr> raised = Some (FileNotFoundError ''/srv/app/mcp_server.py''),
         yielded = False, final = ex_boot \<rparr>
   \<and> history ex_boot = []"
proof -
  have a: "abspath ex_host_no_script ''mcp_server.py'' = ''/srv/app/mcp_server.py''"
    by (simp add: ex_host_no_script_def ex_host_def)
  have e: "\<not> path_exists ex_host_no_script (abspath ex_host_no_script ''mcp_server.py'')"
    by (simp add: ex_host_no_script_def ex_host_def)
  have s: "exit_stack (client ex_boot) = []" "history ex_boot = []"
    by (simp_all add: ex_boot_def MCPClient_init_def)
  from connect_resolves_and_checks_path
         [of ex_host_no_script "''mcp_server.py''" ex_boot None] a e s
  show ?thesis by simp
qed

subsection \<open>The chat pipeline\<close>

lemmas ex_defs = ex_client_def ex_session_def ex_tools_def MCPClient_init_def
  ex_env_text_def ex_env_timeout_def ex_env_none_def ex_env_tool_def ex_arguments_def
  ex_client_image_def ex_client_empty_def text_reply_def tool_use_reply_def

lemmas chat_defs = chat_def chat_try_def generate_plan_def generate_plan_try_def
  get_mcp_tools_def generate_user_response_def generate_user_response_try_def
  respond_and_return_def execute_tool_def first_content_text_def

lemma posts_append: "posts (a @ b) = posts a @ posts b"
  by (induction a rule: posts.induct) simp_all

lemma tool_calls_append: "tool_calls (a @ b) = tool_calls a @ tool_calls b"
  by (induction a rule: tool_calls.induct) simp_all

lemma respond_posts_append: "respond_posts (a @ b) = respond_posts a @ respond_posts b"
  by (simp add: respond_posts_def posts_append)

lemma plan_request_fields:
  "timeout (plan_request env m ts) = 35" "tools (plan_request env m ts) = Some ts"
  by (simp_all add: plan_request_def)

lemma respond_request_fields:
  "timeout (respond_request env m t) = 35" "tools (respond_request env m t) = None"
  by (simp_all add: respond_request_def)

lemma generate_plan_trace:
  "snd (generate_plan env c m) = []
   \<or> snd (generate_plan env c m) = [ListTools]
   \<or> (\<exists>ts. snd (generate_plan env c m) = [ListTools, Post (plan_request env m ts)])"
  by (auto simp: generate_plan_def generate_plan_try_def get_mcp_tools_def Let_def
      split: option.splits sum.splits prod.splits)

lemma generate_plan_returns: "\<exists>plan. fst (generate_plan env c m) = Inr plan"
  by (simp add: generate_plan_def split: prod.splits sum.splits)

lemma generate_plan_quiet:
  "tool_calls (snd (generate_plan env c m)) = []"
  "respond_posts (snd (generate_plan env c m)) = []"
  "\<forall>r \<in> set (posts (snd (generate_plan env c m))). timeout r = 35"
  using generate_plan_trace [of env c m]
  by (auto simp: respond_posts_def plan_request_fields)

lemma generate_user_response_trace:
  "snd (generate_user_response env m t) = [Post (respond_request env m t)]"
  by (simp add: generate_user_response_def generate_user_response_try_def Let_def
      split: sum.splits prod.splits)

lemma generate_user_response_returns: "\<exists>t'. fst (generate_user_response env m t) = Inr t'"
  by (simp add: generate_user_response_def split: prod.splits sum.splits)

lemma respond_and_return_trace:
  "snd (respond_and_return env m t) = [Post (respond_request env m t)]"
proof -
  have "snd (respond_and_return env m t) = snd (generate_user_response env m t)"
    by (simp add: respond_and_return_def split: prod.splits sum.splits)
  then show ?thesis by (simp add: generate_user_response_trace)
qed

lemma respond_and_return_text:
  "fst (generate_user_response env m t) = Inr (JStr x) \<Longrightarrow>
   fst (respond_and_return env m t) = Inr \<lparr> response = x \<rparr>"
  by (cases "generate_user_response env m t") (auto simp: respond_and_return_def)

lemma chat_no_plan:
  assumes "generate_plan env c m = (Inr JNull, tr)"
  shows "chat env c m
           = (Inl (HTTPException 500 (TypeError ''NoneType object is not subscriptable'')), tr)"
  using assms by (simp add: chat_def chat_try_def)

lemma chat_none:
  assumes "generate_plan env c m = (Inr plan, tr)"
      and "py_getitem plan ''name'' = Inr (JStr ''none'')"
  shows "chat_try env c m
           = (fst (respond_and_return env m JNull), tr @ [Post (respond_request env m JNull)])"
proof -
  obtain r tr' where rr: "respond_and_return env m JNull = (r, tr')"
    by (cases "respond_and_return env m JNull")
  with respond_and_return_trace [of env m JNull]
  have "tr' = [Post (respond_request env m JNull)]" by simp
  with assms rr show ?thesis by (simp add: chat_try_def)
qed

lemma chat_fst: "fst (chat_try env c m) = Inr r \<Longrightarrow> fst (chat env c m) = Inr r"
  by (cases "chat_try env c m") (auto simp: chat_def)

lemma chat_snd: "snd (chat env c m) = snd (chat_try env c m)"
  by (simp add: chat_def split: prod.splits sum.splits)

lemma chat_fst_err:
  "fst (chat_try env c m) = Inl e \<Longrightarrow> fst (chat env c m) = Inl (HTTPException 500 e)"
  by (cases "chat_try env c m") (auto simp: chat_def)

lemma find_tool_use_absent:
  "\<forall>item \<in> set items. py_get item ''type'' JNull \<noteq> Inr (JStr ''tool_use'') \<Longrightarrow>
   find_tool_use items = Inr JNull \<or> (\<exists>e. find_tool_use items = Inl e)"
  by (induction items) (auto split: sum.splits)

lemma generate_plan_swallows:
  assumes "session c = Some s" and "session_list_tools s = Inr ts"
      and "post env (plan_request env m (map tool_dict ts)) = Inl e"
  shows "generate_plan env c m
           = (Inr JNull, [ListTools, Post (plan_request env m (map tool_dict ts))])"
  using assms by (simp add: generate_plan_def generate_plan_try_def get_mcp_tools_def)

lemma execute_tool_cases:
  assumes "session c = Some s" and "py_getitem plan ''name'' = Inr nm"
      and "py_getitem plan ''input'' = Inr a"
  shows "execute_tool env c m plan =
     (case session_call_tool s nm a of
        Inl e \<Rightarrow> (Inl e, [CallTool nm a])
      | Inr result \<Rightarrow>
          (case first_content_text result of
             Inl e \<Rightarrow> (Inl e, [CallTool nm a])
           | Inr t \<Rightarrow>
               (fst (respond_and_return env m (JObj [(''result'', JStr t)])),
                [CallTool nm a, Post (respond_request env m (JObj [(''result'', JStr t)]))])))"
proof (cases "session_call_tool s nm a")
  case (Inl e)
  with assms show ?thesis by (simp add: execute_tool_def)
next
  case call: (Inr result)
  show ?thesis
  proof (cases "first_content_text result")
    case (Inl e)
    with call assms show ?thesis by (simp add: execute_tool_def)
  next
    case (Inr t)
    obtain r tr where rr: "respond_and_return env m (JObj [(''result'', JStr t)]) = (r, tr)"
      by (cases "respond_and_return env m (JObj [(''result'', JStr t)])")
    with respond_and_return_trace [of env m "JObj [(''result'', JStr t)]"]
    have "tr = [Post (respond_request env m (JObj [(''result'', JStr t)]))]" by simp
    with rr Inr call assms show ?thesis by (simp add: execute_tool_def)
  qed
qed

lemma execute_tool_trace:
  "snd (execute_tool env c m plan) = []
   \<or> (\<exists>nm a. snd (execute_tool env c m plan) = [CallTool nm a])
   \<or> (\<exists>nm a t. snd (execute_tool env c m plan) = [CallTool nm a, Post (respond_request env m t)])"
proof (cases "session c")
  case None
  then show ?thesis by (simp add: execute_tool_def)
next
  case (Some s)
  show ?thesis
  proof (cases "py_getitem plan ''name''")
    case (Inl e)
    with Some show ?thesis by (simp add: execute_tool_def)
  next
    case nm: (Inr nm)
    show ?thesis
    proof (cases "py_getitem plan ''input''")
      case (Inl e)
      with Some nm show ?thesis by (simp add: execute_tool_def)
    next
      case (Inr a)
      from execute_tool_cases [OF Some nm Inr, of env m] show ?thesis
        by (auto split: sum.splits)
    qed
  qed
qed

lemma chat_try_trace:
  "snd (chat_try env c m) = snd (generate_plan env c m)
   \<or> snd (chat_try env c m)
       = snd (generate_plan env c m) @ [Post (respond_request env m JNull)]
   \<or> (\<exists>plan. snd (chat_try env c m)
       = snd (generate_plan env c m) @ snd (execute_tool env c m plan))"
proof -
  obtain plan tr where gp: "generate_plan env c m = (Inr plan, tr)"
    using generate_plan_returns [of env c m] by (cases "generate_plan env c m") auto
  show ?thesis
  proof (cases "py_getitem plan ''name''")
    case (Inl e)
    with gp show ?thesis by (simp add: chat_try_def)
  next
    case (Inr nm)
    show ?thesis
    proof (cases "nm = JStr ''none''")
      case True
      with Inr gp chat_none [of env c m plan tr] show ?thesis by simp
    next
      case False
      with Inr gp have "snd (chat_try env c m) = tr @ snd (execute_tool env c m plan)"
        by (simp add: chat_try_def split: prod.splits)
      with gp show ?thesis by auto
    qed
  qed
qed

lemma chat_posts_timeout: "\<forall>r \<in> set (posts (snd (chat env c m))). timeout r = 35"
proof -
  have g: "\<forall>r \<in> set (posts (snd (generate_plan env c m))). timeout r = 35"
    by (rule generate_plan_quiet)
  have e: "\<forall>r \<in> set (posts (snd (execute_tool env c m plan))). timeout r = 35" for plan
    using execute_tool_trace [of env c m plan] by (auto simp: respond_request_fields)
  from chat_try_trace [of env c m] g e show ?thesis
    by (auto simp: chat_snd posts_append respond_request_fields)
qed

lemma first_content_text_Inl:
  assumes "first_content_text result = Inl e"
  shows "(content result = [] \<and> e = IndexError ''list index out of range'')
          \<or> (\<exists>d mt bs. content result = ImageContent d mt # bs \<and> e = AttributeError ''text'')
          \<or> (\<exists>r bs. content result = EmbeddedResource r # bs \<and> e = AttributeError ''text'')"
proof (cases "content result")
  case Nil
  with assms show ?thesis by (simp add: first_content_text_def)
next
  case (Cons b bs)
  with assms show ?thesis by (cases b) (simp_all add: first_content_text_def)
qed

lemma first_content_text_Inr:
  assumes "first_content_text result = Inr t"
  shows "\<exists>bs. content result = TextContent t # bs"
proof (cases "content result")
  case Nil
  with assms show ?thesis by (simp add: first_content_text_def)
next
  case (Cons b bs)
  with assms show ?thesis by (cases b) (simp_all add: first_content_text_def)
qed

lemma chat_tool:
  assumes "generate_plan env c m = (Inr plan, tr)"
      and "py_getitem plan ''name'' = Inr nm" and "nm \<noteq> JStr ''none''"
  shows "chat_try env c m
           = (fst (execute_tool env c m plan), tr @ snd (execute_tool env c m plan))"
  using assms by (simp add: chat_try_def split: prod.splits)

text \<open>
  C1, as amended. When the reply of the completion service holds no item of type
  \<open>tool_use\<close>, \<open>generate_plan\<close> does not raise: it returns \<open>None\<close>. \<open>chat\<close> then
  fails on \<open>plan['name']\<close> with a \<open>TypeError\<close>, which it reports as
  \<open>HTTPException\<close> with status 500; the requests of the run are the tool listing and
  the planning request only, so no answer is generated and no tool is called, as
  would happen had a tool named \<open>none\<close> been chosen.
\<close>

theorem missing_tool_use_gives_no_plan:
  assumes "session c = Some s" and "session_list_tools s = Inr ts"
      and "post env (plan_request env m (map tool_dict ts)) = Inr result"
      and "py_get result ''content'' (JArr []) = Inr blocks"
      and "py_iter blocks = Inr items"
      and "\<forall>item \<in> set items. py_get item ''type'' JNull \<noteq> Inr (JStr ''tool_use'')"
  shows "generate_plan env c m
           = (Inr JNull, [ListTools, Post (plan_request env m (map tool_dict ts))])
       \<and> chat env c m
           = (Inl (HTTPException 500 (TypeError ''NoneType object is not subscriptable'')),
              [ListTools, Post (plan_request env m (map tool_dict ts))])
       \<and> respond_posts (snd (chat env c m)) = []
       \<and> tool_calls (snd (chat env c m)) = []"
proof -
  let ?tr = "[ListTools, Post (plan_request env m (map tool_dict ts))]"
  from find_tool_use_absent [OF assms(6)]
  have gp: "generate_plan env c m = (Inr JNull, ?tr)"
    using assms(1-5)
    by (auto simp: generate_plan_def generate_plan_try_def get_mcp_tools_def)
  from chat_no_plan [OF gp]
  have ch: "chat env c m
           = (Inl (HTTPException 500 (TypeError ''NoneType object is not subscriptable'')), ?tr)" .
  have "respond_posts ?tr = []" by (simp add: respond_posts_def plan_request_fields)
  moreover have "tool_calls ?tr = []" by simp
  ultimately show ?thesis using gp ch by simp
qed

theorem missing_tool_use_gives_no_plan_witness:
  "generate_plan ex_env_text ex_client ''hello''
     = (Inr JNull, [ListTools, Post (plan_request ex_env_text ''hello'' (map tool_dict ex_tools))])
   \<and> fst (chat ex_env_text ex_client ''hello'')
     = Inl (HTTPException 500 (TypeError ''NoneType object is not subscriptable''))
   \<and> respond_posts (snd (chat ex_env_text ex_client ''hello'')) = []
   \<and> tool_calls (snd (chat ex_env_text ex_client ''hello'')) = []"
proof -
  let ?items = "[JObj [(''type'', JStr ''text''), (''text'', JStr ''Hello'')]]"
  have h1: "session ex_client = Some ex_session"
    by (simp add: ex_client_def MCPClient_init_def)
  have h2: "session_list_tools ex_session = Inr ex_tools" by (simp add: ex_session_def)
  have h3: "post ex_env_text (plan_request ex_env_text ''hello'' (map tool_dict ex_tools))
              = Inr (text_reply ''Hello'')"
    by (simp add: ex_env_text_def)
  have h4: "py_get (text_reply ''Hello'') ''content'' (JArr []) = Inr (JArr ?items)"
    by (simp add: text_reply_def)
  have h5: "py_iter (JArr ?items) = Inr ?items" by simp
  have h6: "\<forall>item \<in> set ?items. py_get item ''type'' JNull \<noteq> Inr (JStr ''tool_use'')"
    by simp
  from missing_tool_use_gives_no_plan [OF h1 h2 h3 h4 h5 h6] show ?thesis
    by (simp add: respond_posts_def plan_request_fields)
qed

text \<open>
  The planning step returns the empty plan and does not fail: with a reply
  that holds a text block only, \<open>generate_plan\<close> returns \<open>None\<close> and raises nothing.
\<close>

theorem planning_returns_none_without_tool_use:
  "fst (generate_plan ex_env_text ex_client ''hello'') = Inr JNull
   \<and> \<not> (\<exists>e. fst (generate_plan ex_env_text ex_client ''hello'') = Inl e)"
  by (simp add: generate_plan_def generate_plan_try_def get_mcp_tools_def ex_client_def
      ex_session_def MCPClient_init_def ex_env_text_def text_reply_def)

text \<open>
  C2. When the plan names the tool \<open>none\<close>, \<open>chat\<close> calls
  \<open>generate_user_response\<close> once, with the user's message and no tool result (the
  one request without a tool list carries the prompt for a direct answer), it calls no
  tool, and when that call produced a text, the response returned is that text.
\<close>

theorem none_plan_answers_directly:
  assumes "generate_plan env c m = (Inr plan, tr)"
      and "py_getitem plan ''name'' = Inr (JStr ''none'')"
  shows "respond_posts (snd (chat env c m)) = [respond_request env m JNull]
       \<and> messages (respond_request env m JNull) = [(''user'', DirectPrompt m)]
       \<and> tool_calls (snd (chat env c m)) = []
       \<and> (\<forall>t. fst (generate_user_response env m JNull) = Inr (JStr t)
              \<longrightarrow> fst (chat env c m) = Inr \<lparr> response = t \<rparr>)"
proof -
  from assms(1) have tr: "tr = snd (generate_plan env c m)" by simp
  have q: "tool_calls tr = []" "respond_posts tr = []"
    unfolding tr by (rule generate_plan_quiet)+
  note ct = chat_none [OF assms]
  have s: "snd (chat env c m) = tr @ [Post (respond_request env m JNull)]"
    by (simp add: chat_snd ct)
  have a: "respond_posts (snd (chat env c m)) = [respond_request env m JNull]"
    by (simp add: s respond_posts_append q) (simp add: respond_posts_def respond_request_fields)
  have b: "tool_calls (snd (chat env c m)) = []"
    by (simp add: s tool_calls_append q)
  have d: "\<forall>t. fst (generate_user_response env m JNull) = Inr (JStr t)
              \<longrightarrow> fst (chat env c m) = Inr \<lparr> response = t \<rparr>"
  proof (intro allI impI)
    fix t assume "fst (generate_user_response env m JNull) = Inr (JStr t)"
    then have "fst (respond_and_return env m JNull) = Inr \<lparr> response = t \<rparr>"
      by (rule respond_and_return_text)
    then have "fst (chat_try env c m) = Inr \<lparr> response = t \<rparr>" by (simp add: ct)
    then show "fst (chat env c m) = Inr \<lparr> response = t \<rparr>" by (rule chat_fst)
  qed
  have e: "messages (respond_request env m JNull) = [(''user'', DirectPrompt m)]"
    by (simp add: respond_request_def)
  from a b d e show ?thesis by blast
qed

theorem none_plan_answers_directly_witness:
  "respond_posts (snd (chat ex_env_none ex_client ''What is the weather?''))
       = [respond_request ex_env_none ''What is the weather?'' JNull]
   \<and> tool_calls (snd (chat ex_env_none ex_client ''What is the weather?'')) = []
   \<and> fst (chat ex_env_none ex_client ''What is the weather?'') = Inr \<lparr> response = ''Sunny'' \<rparr>"
proof -
  let ?m = "''What is the weather?''"
  let ?plan = "JObj [(''type'', JStr ''tool_use''), (''name'', JStr ''none''), (''input'', JObj [])]"
  have p: "generate_plan ex_env_none ex_client ?m
             = (Inr ?plan, [ListTools, Post (plan_request ex_env_none ?m (map tool_dict ex_tools))])"
    by (simp add: generate_plan_def generate_plan_try_def get_mcp_tools_def ex_client_def
        ex_session_def MCPClient_init_def ex_env_none_def plan_request_def tool_use_reply_def)
  have n: "py_getitem ?plan ''name'' = Inr (JStr ''none'')" by simp
  have g: "fst (generate_user_response ex_env_none ?m JNull) = Inr (JStr ''Sunny'')"
    by (simp add: generate_user_response_def generate_user_response_try_def ex_env_none_def
        respond_request_def text_reply_def)
  from none_plan_answers_directly [OF p n] g show ?thesis by blast
qed

text \<open>
  C3, as amended. When the plan names a tool other than \<open>none\<close> and has an input,
  \<open>chat\<close> calls the tool once, with the planned name and arguments. It reads the first
  content block of the result: when that block is a text block, its text is the tool
  result handed to \<open>generate_user_response\<close>; when the result has no block
  (\<open>IndexError\<close>) or its first block is not a text block (\<open>AttributeError\<close>), and
  when the call itself raises, \<open>chat\<close> fails with \<open>HTTPException\<close> 500 and generates
  no answer.
\<close>

theorem tool_plan_reads_first_block:
  assumes "generate_plan env c m = (Inr plan, tr)"
      and "py_getitem plan ''name'' = Inr nm" and "nm \<noteq> JStr ''none''"
      and "py_getitem plan ''input'' = Inr a"
      and "session c = Some s"
  shows "tool_calls (snd (chat env c m)) = [(nm, a)]
       \<and> (case session_call_tool s nm a of
             Inl e \<Rightarrow>
               fst (chat env c m) = Inl (HTTPException 500 e)
               \<and> respond_posts (snd (chat env c m)) = []
           | Inr result \<Rightarrow>
               (case content result of
                  [] \<Rightarrow>
                    fst (chat env c m)
                      = Inl (HTTPException 500 (IndexError ''list index out of range''))
                    \<and> respond_posts (snd (chat env c m)) = []
                | TextContent t # bs \<Rightarrow>
                    respond_posts (snd (chat env c m))
                      = [respond_request env m (JObj [(''result'', JStr t)])]
                    \<and> messages (respond_request env m (JObj [(''result'', JStr t)]))
                      = [(''user'', ToolPrompt m (JObj [(''result'', JStr t)]))]
                | ImageContent d mt # bs \<Rightarrow>
                    fst (chat env c m) = Inl (HTTPException 500 (AttributeError ''text''))
                    \<and> respond_posts (snd (chat env c m)) = []
                | EmbeddedResource r # bs \<Rightarrow>
                    fst (chat env c m) = Inl (HTTPException 500 (AttributeError ''text''))
                    \<and> respond_posts (snd (chat env c m)) = []))"
proof -
  from assms(1) have tr: "tr = snd (generate_plan env c m)" by simp
  have q: "tool_calls tr = []" "respond_posts tr = []"
    unfolding tr by (rule generate_plan_quiet)+
  note ct = chat_tool [OF assms(1-3)]
  note ex = execute_tool_cases [OF assms(5) assms(2) assms(4), of env m]
  have rp: "respond_posts [CallTool nm a] = []" by (simp add: respond_posts_def)
  have rp2: "respond_posts [CallTool nm a, Post (respond_request env m t)]
               = [respond_request env m t]" for t
    by (simp add: respond_posts_def respond_request_fields)
  have msg: "messages (respond_request env m (JObj [(''result'', JStr t)]))
                      = [(''user'', ToolPrompt m (JObj [(''result'', JStr t)]))]" for t
    by (simp add: respond_request_def)
  show ?thesis
  proof (cases "session_call_tool s nm a")
    case (Inl e)
    with ex have e1: "execute_tool env c m plan = (Inl e, [CallTool nm a])" by simp
    with ct have "chat_try env c m = (Inl e, tr @ [CallTool nm a])" by simp
    then have "chat env c m = (Inl (HTTPException 500 e), tr @ [CallTool nm a])"
      by (simp add: chat_def)
    with Inl q rp show ?thesis by (simp add: tool_calls_append respond_posts_append)
  next
    case call: (Inr result)
    show ?thesis
    proof (cases "first_content_text result")
      case (Inl e)
      with ex call have e1: "execute_tool env c m plan = (Inl e, [CallTool nm a])" by simp
      with ct have "chat_try env c m = (Inl e, tr @ [CallTool nm a])" by simp
      then have ch: "chat env c m = (Inl (HTTPException 500 e), tr @ [CallTool nm a])"
        by (simp add: chat_def)
      from Inl have "(content result = [] \<and> e = IndexError ''list index out of range'')
          \<or> (\<exists>d mt bs. content result = ImageContent d mt # bs \<and> e = AttributeError ''text'')
          \<or> (\<exists>r bs. content result = EmbeddedResource r # bs \<and> e = AttributeError ''text'')"
        by (rule first_content_text_Inl)
      with ch call q rp show ?thesis
        by (auto simp: tool_calls_append respond_posts_append)
    next
      case (Inr t)
      with ex call have e1: "snd (execute_tool env c m plan)
          = [CallTool nm a, Post (respond_request env m (JObj [(''result'', JStr t)]))]"
        by simp
      with ct have "snd (chat env c m)
          = tr @ [CallTool nm a, Post (respond_request env m (JObj [(''result'', JStr t)]))]"
        by (simp add: chat_snd)
      moreover from Inr have "\<exists>bs. content result = TextContent t # bs"
        by (rule first_content_text_Inr)
      ultimately show ?thesis using call q rp2 msg
        by (auto simp: tool_calls_append respond_posts_append)
    qed
  qed
qed

theorem tool_plan_reads_first_block_witness:
  "tool_calls (snd (chat ex_env_tool ex_client ''Email Bob''))
      = [(JStr ''send_email'', ex_arguments)]
   \<and> respond_posts (snd (chat ex_env_tool ex_client ''Email Bob''))
      = [respond_request ex_env_tool ''Email Bob'' (JObj [(''result'', JStr ''sent'')])]"
proof -
  let ?m = "''Email Bob''"
  let ?plan = "JObj [(''type'', JStr ''tool_use''), (''name'', JStr ''send_email''),
                     (''input'', ex_arguments)]"
  have p: "generate_plan ex_env_tool ex_client ?m
             = (Inr ?plan, [ListTools, Post (plan_request ex_env_tool ?m (map tool_dict ex_tools))])"
    by (simp add: generate_plan_def generate_plan_try_def get_mcp_tools_def ex_client_def
        ex_session_def MCPClient_init_def ex_env_tool_def plan_request_def tool_use_reply_def)
  have n: "py_getitem ?plan ''name'' = Inr (JStr ''send_email'')" by simp
  have ne: "JStr ''send_email'' \<noteq> JStr ''none''" by simp
  have i: "py_getitem ?plan ''input'' = Inr ex_arguments" by simp
  have s: "session ex_client = Some ex_session" by (simp add: ex_client_def MCPClient_init_def)
  have r: "session_call_tool ex_session (JStr ''send_email'') ex_arguments
             = Inr \<lparr> content = [TextContent ''sent''], isError = False \<rparr>"
    by (simp add: ex_session_def)
  from tool_plan_reads_first_block [OF p n ne i s] r show ?thesis by simp
qed

text \<open>
  The block read is the first one, not the first text block: a result whose content is
  an image block followed by a text block makes \<open>chat\<close> fail with an
  \<open>AttributeError\<close>, and an empty content makes it fail with an \<open>IndexError\<close>.
\<close>

theorem first_block_not_first_text_block:
  "session_call_tool (the (session ex_client_image)) (JStr ''send_email'') ex_arguments
     = Inr \<lparr> content = [ImageContent ''data'' ''image/png'', TextContent ''ok''],
             isError = False \<rparr>
   \<and> fst (chat ex_env_tool ex_client_image ''Email Bob'')
     = Inl (HTTPException 500 (AttributeError ''text''))
   \<and> respond_posts (snd (chat ex_env_tool ex_client_image ''Email Bob'')) = []
   \<and> fst (chat ex_env_tool ex_client_empty ''Email Bob'')
     = Inl (HTTPException 500 (IndexError ''list index out of range''))"
  by (simp add: chat_defs ex_defs plan_request_def respond_request_def respond_posts_def)

text \<open>
  C4, as amended. Every request that \<open>chat\<close> posts to the completion service carries
  the timeout 35. When the planning request raises (a timeout, a transport failure, a
  bad status), \<open>generate_plan\<close> catches the exception and returns \<open>None\<close>;
  \<open>chat\<close> then fails with \<open>HTTPException\<close> 500 carrying the \<open>TypeError\<close> of
  \<open>plan['name']\<close>, having called no tool and generated no answer.
\<close>

theorem gateway_timeout_bound_and_failure:
  "(\<forall>r \<in> set (posts (snd (chat env c m))). timeout r = 35)
   \<and> (\<forall>s ts e. session c = Some s \<longrightarrow> session_list_tools s = Inr ts \<longrightarrow>
          post env (plan_request env m (map tool_dict ts)) = Inl e \<longrightarrow>
            generate_plan env c m
              = (Inr JNull, [ListTools, Post (plan_request env m (map tool_dict ts))])
          \<and> chat env c m
              = (Inl (HTTPException 500 (TypeError ''NoneType object is not subscriptable'')),
                 [ListTools, Post (plan_request env m (map tool_dict ts))])
          \<and> tool_calls (snd (chat env c m)) = []
          \<and> respond_posts (snd (chat env c m)) = [])"
proof -
  have "generate_plan env c m
              = (Inr JNull, [ListTools, Post (plan_request env m (map tool_dict ts))])
          \<and> chat env c m
              = (Inl (HTTPException 500 (TypeError ''NoneType object is not subscriptable'')),
                 [ListTools, Post (plan_request env m (map tool_dict ts))])
          \<and> tool_calls (snd (chat env c m)) = []
          \<and> respond_posts (snd (chat env c m)) = []"
    if "session c = Some s" "session_list_tools s = Inr ts"
       "post env (plan_request env m (map tool_dict ts)) = Inl e" for s ts e
  proof -
    note gp = generate_plan_swallows [OF that]
    note ch = chat_no_plan [OF gp]
    show ?thesis by (simp add: gp ch respond_posts_def plan_request_fields)
  qed
  with chat_posts_timeout [of env c m] show ?thesis by blast
qed

theorem gateway_timeout_bound_and_failure_witness:
  "timeout (plan_request ex_env_timeout ''hello'' (map tool_dict ex_tools)) = 35
   \<and> chat ex_env_timeout ex_client ''hello''
       = (Inl (HTTPException 500 (TypeError ''NoneType object is not subscriptable'')),
          [ListTools, Post (plan_request ex_env_timeout ''hello'' (map tool_dict ex_tools))])
   \<and> tool_calls (snd (chat ex_env_timeout ex_client ''hello'')) = []"
proof -
  have h1: "session ex_client = Some ex_session"
    by (simp add: ex_client_def MCPClient_init_def)
  have h2: "session_list_tools ex_session = Inr ex_tools" by (simp add: ex_session_def)
  have h3: "post ex_env_timeout (plan_request ex_env_timeout ''hello'' (map tool_dict ex_tools))
              = Inl (TimeoutException ''timed out'')"
    by (simp add: ex_env_timeout_def)
  from gateway_timeout_bound_and_failure [of ex_env_timeout ex_client "''hello''"] h1 h2 h3
  have c: "chat ex_env_timeout ex_client ''hello''
       = (Inl (HTTPException 500 (TypeError ''NoneType object is not subscriptable'')),
          [ListTools, Post (plan_request ex_env_timeout ''hello'' (map tool_dict ex_tools))])"
    by blast
  then have p: "posts (snd (chat ex_env_timeout ex_client ''hello''))
                 = [plan_request ex_env_timeout ''hello'' (map tool_dict ex_tools)]"
    by simp
  from gateway_timeout_bound_and_failure [of ex_env_timeout ex_client "''hello''"]
  have "\<forall>r \<in> set (posts (snd (chat ex_env_timeout ex_client ''hello''))). timeout r = 35"
    by blast
  with p have t: "timeout (plan_request ex_env_timeout ''hello'' (map tool_dict ex_tools)) = 35"
    by simp
  from c t show ?thesis by simp
qed

text \<open>
  The planning call does not fail on a timeout, and the failure of the pipeline is not
  the timeout: \<open>generate_plan\<close> returns \<open>None\<close> and \<open>chat\<close> reports a \<open>TypeError\<close>.
\<close>

theorem plan_timeout_is_swallowed:
  "post ex_env_timeout (plan_request ex_env_timeout ''hello'' (map tool_dict ex_tools))
     = Inl (TimeoutException ''timed out'')
   \<and> fst (generate_plan ex_env_timeout ex_client ''hello'') = Inr JNull
   \<and> fst (chat ex_env_timeout ex_client ''hello'')
     = Inl (HTTPException 500 (TypeError ''NoneType object is not subscriptable''))"
  by (simp add: chat_def chat_try_def generate_plan_def generate_plan_try_def get_mcp_tools_def
      ex_client_def ex_session_def MCPClient_init_def ex_env_timeout_def)


subsection \<open>An unknown recipient\<close>

lemma send_email_absent:
  "contacts svc (lower to) = None \<Longrightarrow>
   send_email svc to subject body cc bcc = Inl (KeyError (lower to))"
  by (simp add: send_email_def send_email_try_def get_contact_email_def)

lemma ex_plan_tool:
  "session_list_tools s = Inr ex_tools \<Longrightarrow>
   generate_plan ex_env_tool (MCPClient_init \<lparr> session := Some s \<rparr>) m
     = (Inr (JObj [(''type'', JStr ''tool_use''), (''name'', JStr ''send_email''),
                   (''input'', ex_arguments)]),
        [ListTools, Post (plan_request ex_env_tool m (map tool_dict ex_tools))])"
  by (simp add: generate_plan_def generate_plan_try_def get_mcp_tools_def
      MCPClient_init_def ex_env_tool_def plan_request_def tool_use_reply_def)

text \<open>
  C9, as amended. When the lower-cased recipient is not in the contact directory,
  \<open>send_email\<close> raises \<open>KeyError\<close>, whatever the mail API would answer: nothing is
  sent, and its \<open>except\<close> clause, which catches \<open>HttpError\<close> only, lets the exception
  leave. In the pipeline, for a plan that names a tool: when \<open>call_tool\<close> raises,
  \<open>chat\<close> fails with the single \<open>HTTPException\<close> 500 that carries the exception,
  after one tool call and without generating an answer; when \<open>call_tool\<close> returns a
  result whose first block is a text block, flagged as an error or not, \<open>chat\<close> hands
  that text to \<open>generate_user_response\<close> and returns its answer.
\<close>

theorem absent_recipient_key_error:
  assumes "contacts svc (lower to) = None"
      and "generate_plan env c m = (Inr plan, tr)"
      and "py_getitem plan ''name'' = Inr nm" and "nm \<noteq> JStr ''none''"
      and "py_getitem plan ''input'' = Inr a"
      and "session c = Some s"
  shows "send_email svc to subject body cc bcc = Inl (KeyError (lower to))
       \<and> (\<forall>f. send_email (svc \<lparr> service := f \<rparr>) to subject body cc bcc
                 = Inl (KeyError (lower to)))
       \<and> (\<forall>e. session_call_tool s nm a = Inl e \<longrightarrow>
              fst (chat env c m) = Inl (HTTPException 500 e)
              \<and> tool_calls (snd (chat env c m)) = [(nm, a)]
              \<and> respond_posts (snd (chat env c m)) = [])
       \<and> (\<forall>t bs flag. session_call_tool s nm a
                          = Inr \<lparr> content = TextContent t # bs, isError = flag \<rparr> \<longrightarrow>
              respond_posts (snd (chat env c m))
                = [respond_request env m (JObj [(''result'', JStr t)])]
              \<and> (\<forall>x. fst (generate_user_response env m (JObj [(''result'', JStr t)]))
                         = Inr (JStr x)
                       \<longrightarrow> fst (chat env c m) = Inr \<lparr> response = x \<rparr>))"
proof -
  have se: "send_email svc to subject body cc bcc = Inl (KeyError (lower to))"
    using assms(1) by (rule send_email_absent)
  have sf: "\<forall>f. send_email (svc \<lparr> service := f \<rparr>) to subject body cc bcc
                 = Inl (KeyError (lower to))"
    using assms(1) by (simp add: send_email_absent)
  from assms(2) have tr: "tr = snd (generate_plan env c m)" by simp
  have q: "tool_calls tr = []" "respond_posts tr = []"
    unfolding tr by (rule generate_plan_quiet)+
  note ct = chat_tool [OF assms(2-4)]
  note ex = execute_tool_cases [OF assms(6) assms(3) assms(5), of env m]
  have raise: "fst (chat env c m) = Inl (HTTPException 500 e)
              \<and> tool_calls (snd (chat env c m)) = [(nm, a)]
              \<and> respond_posts (snd (chat env c m)) = []"
    if "session_call_tool s nm a = Inl e" for e
  proof -
    from ex that have "execute_tool env c m plan = (Inl e, [CallTool nm a])" by simp
    with ct have "chat_try env c m = (Inl e, tr @ [CallTool nm a])" by simp
    then have "chat env c m = (Inl (HTTPException 500 e), tr @ [CallTool nm a])"
      by (simp add: chat_def)
    with q show ?thesis
      by (simp add: tool_calls_append respond_posts_append) (simp add: respond_posts_def)
  qed
  have result: "respond_posts (snd (chat env c m))
                = [respond_request env m (JObj [(''result'', JStr t)])]
              \<and> (\<forall>x. fst (generate_user_response env m (JObj [(''result'', JStr t)]))
                         = Inr (JStr x)
                       \<longrightarrow> fst (chat env c m) = Inr \<lparr> response = x \<rparr>)"
    if "session_call_tool s nm a = Inr \<lparr> content = TextContent t # bs, isError = flag \<rparr>"
    for t bs flag
  proof -
    have fc: "first_content_text \<lparr> content = TextContent t # bs, isError = flag \<rparr> = Inr t"
      by (simp add: first_content_text_def)
    from ex that fc have e1: "execute_tool env c m plan
        = (fst (respond_and_return env m (JObj [(''result'', JStr t)])),
           [CallTool nm a, Post (respond_request env m (JObj [(''result'', JStr t)]))])"
      by simp
    with ct have c1: "chat_try env c m
        = (fst (respond_and_return env m (JObj [(''result'', JStr t)])),
           tr @ [CallTool nm a, Post (respond_request env m (JObj [(''result'', JStr t)]))])"
      by simp
    then have "snd (chat env c m)
        = tr @ [CallTool nm a, Post (respond_request env m (JObj [(''result'', JStr t)]))]"
      by (simp add: chat_snd)
    with q have a1: "respond_posts (snd (chat env c m))
                = [respond_request env m (JObj [(''result'', JStr t)])]"
      by (simp add: respond_posts_append) (simp add: respond_posts_def respond_request_fields)
    have a2: "fst (chat env c m) = Inr \<lparr> response = x \<rparr>"
      if "fst (generate_user_response env m (JObj [(''result'', JStr t)])) = Inr (JStr x)" for x
    proof -
      from that have "fst (respond_and_return env m (JObj [(''result'', JStr t)]))
                        = Inr \<lparr> response = x \<rparr>"
        by (rule respond_and_return_text)
      with c1 have "fst (chat_try env c m) = Inr \<lparr> response = x \<rparr>" by simp
      then show ?thesis by (rule chat_fst)
    qed
    from a1 a2 show ?thesis by blast
  qed
  from se sf raise result show ?thesis by blast
qed

theorem absent_recipient_key_error_witness:
  "send_email ex_directory_lower ''bob'' ''Report'' ''Ready'' None None = Inl (KeyError ''bob'')
   \<and> fst (chat ex_env_tool ex_client_raising ''Email Bob'')
       = Inl (HTTPException 500 (McpError ''bob''))
   \<and> respond_posts (snd (chat ex_env_tool ex_client_raising ''Email Bob'')) = []
   \<and> fst (chat ex_env_tool ex_client_failed ''Email Bob'') = Inr \<lparr> response = ''Done'' \<rparr>"
proof -
  let ?m = "''Email Bob''"
  let ?plan = "JObj [(''type'', JStr ''tool_use''), (''name'', JStr ''send_email''),
                     (''input'', ex_arguments)]"
  let ?t = "''Error executing tool send_email: bob''"
  have ab: "contacts ex_directory_lower (lower ''bob'') = None"
    by (simp add: ex_directory_lower_def lower_def lower_char_def)
  have lb: "lower ''bob'' = ''bob''" by (simp add: lower_def lower_char_def)
  have n: "py_getitem ?plan ''name'' = Inr (JStr ''send_email'')" by simp
  have ne: "JStr ''send_email'' \<noteq> JStr ''none''" by simp
  have i: "py_getitem ?plan ''input'' = Inr ex_arguments" by simp
  have p1: "generate_plan ex_env_tool ex_client_raising ?m
             = (Inr ?plan, [ListTools, Post (plan_request ex_env_tool ?m (map tool_dict ex_tools))])"
    unfolding ex_client_raising_def by (rule ex_plan_tool) (simp add: ex_session_raising_def)
  have s1: "session ex_client_raising = Some ex_session_raising"
    by (simp add: ex_client_raising_def MCPClient_init_def)
  have r1: "session_call_tool ex_session_raising (JStr ''send_email'') ex_arguments
              = Inl (McpError ''bob'')"
    by (simp add: ex_session_raising_def)
  have p2: "generate_plan ex_env_tool ex_client_failed ?m
             = (Inr ?plan, [ListTools, Post (plan_request ex_env_tool ?m (map tool_dict ex_tools))])"
    unfolding ex_client_failed_def by (rule ex_plan_tool) (simp add: ex_session_failed_def)
  have s2: "session ex_client_failed = Some ex_session_failed"
    by (simp add: ex_client_failed_def MCPClient_init_def)
  have r2: "session_call_tool ex_session_failed (JStr ''send_email'') ex_arguments
              = Inr \<lparr> content = TextContent ?t # [], isError = True \<rparr>"
    by (simp add: ex_session_failed_def)
  have g: "fst (generate_user_response ex_env_tool ?m (JObj [(''result'', JStr ?t)]))
             = Inr (JStr ''Done'')"
    by (simp add: generate_user_response_def generate_user_response_try_def ex_env_tool_def
        respond_request_def text_reply_def)
  note T1 = absent_recipient_key_error
              [OF ab p1 n ne i s1, of "''Report''" "''Ready''" None None]
  note T2 = absent_recipient_key_error
              [OF ab p2 n ne i s2, of "''Report''" "''Ready''" None None]
  from T1 lb have a: "send_email ex_directory_lower ''bob'' ''Report'' ''Ready'' None None
                        = Inl (KeyError ''bob'')"
    by simp
  from T1 r1 have b: "fst (chat ex_env_tool ex_client_raising ?m)
                        = Inl (HTTPException 500 (McpError ''bob''))
                      \<and> respond_posts (snd (chat ex_env_tool ex_client_raising ?m)) = []"
    by blast
  from T2 r2 g have c: "fst (chat ex_env_tool ex_client_failed ?m) = Inr \<lparr> response = ''Done'' \<rparr>"
    by blast
  from a b c show ?thesis by blast
qed

text \<open>
  The pipeline does not abort on a failure that the session reports inside the result:
  for the recipient \<open>bob\<close>, absent from the directory, \<open>send_email\<close> raises a bare
  \<open>KeyError\<close>, and with the result flagged \<open>isError\<close> that carries a text block,
  \<open>chat\<close> makes the call of \<open>generate_user_response\<close> and returns a response.
\<close>

theorem failed_tool_result_is_answered:
  "send_email ex_directory_lower ''bob'' ''Report'' ''Ready'' None None = Inl (KeyError ''bob'')
   \<and> session_call_tool ex_session_failed (JStr ''send_email'') ex_arguments
       = Inr \<lparr> content = [TextContent ''Error executing tool send_email: bob''],
               isError = True \<rparr>
   \<and> fst (chat ex_env_tool ex_client_failed ''Email Bob'') = Inr \<lparr> response = ''Done'' \<rparr>
   \<and> respond_posts (snd (chat ex_env_tool ex_client_failed ''Email Bob''))
       = [respond_request ex_env_tool ''Email Bob''
            (JObj [(''result'', JStr ''Error executing tool send_email: bob'')])]"
  by (simp add: chat_defs ex_defs ex_client_failed_def ex_session_failed_def
      ex_directory_lower_def send_email_def send_email_try_def get_contact_email_def
      lower_def lower_char_def plan_request_def respond_request_def respond_posts_def)

subsection \<open>Recipient lookup\<close>

lemma lookup_each_missing:
  "n \<in> set xs \<Longrightarrow> cs n = None \<Longrightarrow>
     \<exists>k. lookup_each cs xs = Inl (KeyError k) \<and> k \<in> set xs \<and> cs k = None"
  by (induction xs) (auto split: option.splits sum.splits)

lemma get_list_emails_missing:
  assumes "n \<in> set xs" and "contacts self n = None"
  shows "\<exists>k. get_list_emails self (Some xs) = Inl (KeyError k) \<and> k \<in> set xs \<and> contacts self k = None"
proof -
  from assms have ne: "xs \<noteq> []" by auto
  from lookup_each_missing [of n xs "contacts self"] assms obtain k where
    k: "lookup_each (contacts self) xs = Inl (KeyError k)" "k \<in> set xs" "contacts self k = None"
    by blast
  from ne k show ?thesis by (simp add: get_list_emails_def falsy_def)
qed

text \<open>
  C10, as amended. \<open>send_email\<close> lowercases the \<open>to\<close> name before the directory
  lookup, and looks every cc and bcc entry up as it is given. So a name whose
  lower-case form is a key of the directory, and which is not a key itself, resolves as
  \<open>to\<close> and raises \<open>KeyError\<close> as a cc or bcc entry.
\<close>

theorem send_email_lowercases_to_only:
  assumes "contacts self (lower n) = Some a" and "contacts self n = None"
  shows "get_contact_email self n = Inr a
       \<and> get_list_emails self (Some [n]) = Inl (KeyError n)
       \<and> send_email self n subject body (Some [n]) None = Inl (KeyError n)
       \<and> send_email self n subject body None (Some [n]) = Inl (KeyError n)
       \<and> (\<forall>xs. n \<in> set xs \<longrightarrow>
            (\<exists>k. get_list_emails self (Some xs) = Inl (KeyError k) \<and> k \<in> set xs
                 \<and> contacts self k = None))"
proof -
  have to: "get_contact_email self n = Inr a"
    using assms(1) by (simp add: get_contact_email_def)
  have one: "get_list_emails self (Some [n]) = Inl (KeyError n)"
    using assms(2) by (simp add: get_list_emails_def falsy_def)
  have none: "get_list_emails self None = Inr None"
    by (simp add: get_list_emails_def falsy_def)
  have cc: "send_email self n subject body (Some [n]) None = Inl (KeyError n)"
    by (simp add: send_email_def send_email_try_def to one none)
  have bcc: "send_email self n subject body None (Some [n]) = Inl (KeyError n)"
    by (simp add: send_email_def send_email_try_def to one none)
  have many: "\<forall>xs. n \<in> set xs \<longrightarrow>
            (\<exists>k. get_list_emails self (Some xs) = Inl (KeyError k) \<and> k \<in> set xs
                 \<and> contacts self k = None)"
    using get_list_emails_missing assms(2) by blast
  from to one cc bcc many show ?thesis by blast
qed

theorem send_email_lowercases_to_only_witness:
  "get_contact_email ex_directory_lower ''Alice'' = Inr ''alice@example.com''
   \<and> get_list_emails ex_directory_lower (Some [''Alice'']) = Inl (KeyError ''Alice'')
   \<and> send_email ex_directory_lower ''Alice'' ''Hi'' ''Text'' (Some [''Alice'']) None
       = Inl (KeyError ''Alice'')"
proof -
  have h1: "contacts ex_directory_lower (lower ''Alice'') = Some ''alice@example.com''"
    by (simp add: ex_directory_lower_def lower_def lower_char_def)
  have h2: "contacts ex_directory_lower ''Alice'' = None"
    by (simp add: ex_directory_lower_def)
  from send_email_lowercases_to_only [OF h1 h2, of "''Hi''" "''Text''"]
  show ?thesis by blast
qed

text \<open>
  The lookup of \<open>to\<close> is not case-insensitive: with the key \<open>Alice\<close> in the
  directory, neither \<open>alice\<close>, which differs from the key only in case, nor \<open>Alice\<close>
  itself resolves as \<open>to\<close>, while \<open>Alice\<close> resolves as a cc entry.
\<close>

theorem to_lookup_not_case_insensitive:
  "lower ''alice'' = lower ''Alice''
   \<and> contacts ex_directory ''Alice'' = Some ''alice@example.com''
   \<and> get_contact_email ex_directory ''alice'' = Inl (KeyError ''alice'')
   \<and> get_contact_email ex_directory ''Alice'' = Inl (KeyError ''alice'')
   \<and> send_email ex_directory ''alice'' ''Hi'' ''Text'' None None = Inl (KeyError ''alice'')
   \<and> get_list_emails ex_directory (Some [''Alice'']) = Inr (Some [''alice@example.com''])"
  by (simp add: ex_directory_def get_contact_email_def get_list_emails_def falsy_def
      send_email_def send_email_try_def lower_def lower_char_def)

end
